theory Spec2Isabelle
  imports Complex_Main "HOL-Library.Signed_Division"
begin

section \<open>Sprite-sheet geometry and frame lists (src/src/Sprites.tsx)\<close>

text \<open>
  The component is written in TypeScript; its numbers are IEEE doubles. Counts and
  indices (\<open>columns\<close>, \<open>rows\<close>, \<open>row\<close>, \<open>startFrame\<close>, \<open>endFrame\<close>, frame indices) are
  modelled as unbounded \<open>int\<close>, on which the double arithmetic of the source is exact in
  the safe-integer range; pixel quantities (\<open>computedFrameWidth\<close>, \<open>offsetX\<close>, the
  translations) and the progress value are modelled as \<open>real\<close>, without rounding.
  \<open>console.warn\<close> and \<open>console.error\<close> become entries of an effect list that every function
  returns next to its value.
\<close>

subsection \<open>Data\<close>

text \<open>One entry of the \<open>animations\<close> prop (SpritesProps, lines 41-44).\<close>

record AnimationDef =
  row :: int
  startFrame :: int
  endFrame :: int

text \<open>
  The props and memoised values that the frame arithmetic reads. \<open>computedFrameWidth\<close>
  and \<open>computedFrameHeight\<close> are the values of the two \<open>useMemo\<close> hooks at lines 151-161,
  taken as given. \<open>animations\<close> is the JavaScript object in the order of
  \<open>Object.entries\<close>; an object has every key once (\<open>distinct (map fst (animations p))\<close>),
  and \<open>animations[type]\<close> is \<open>map_of (animations p) type\<close>. Names that every object
  inherits from its prototype are not modelled as keys.
\<close>

record SpritesProps =
  columns :: int
  rows :: int
  animations :: "(string \<times> AnimationDef) list"
  computedFrameWidth :: real
  computedFrameHeight :: real
  offsetX :: real
  offsetY :: real

record FrameCoords =
  translateX :: real
  translateY :: real

text \<open>
  User-supplied functions are opaque; they are identified by a tag. \<open>Noop\<close> is the
  default \<open>() => {}\<close> of \<open>onFinish\<close> (line 328).
\<close>

datatype callback = Noop | Fn nat

text \<open>
  The console messages of the source, each template with the values it interpolates:
  line 195 (frame index, \<open>totalFrames - 1\<close>), lines 246 and 340 (animation name,
  \<open>frames.length\<close>), line 331 (animation name).
\<close>

datatype message =
    FrameOutOfBounds int int
  | RequiresTwoFrames string nat
  | TypeNotFound string

text \<open>
  What a call does besides returning: a console line, or the invocation of a user
  function, tagged with the place that invokes it (\<open>onFinish()\<close> at line 364, or the
  \<open>cb\<close> handed to \<open>stopAnimation\<close> at lines 373 and 380). An invocation of \<open>onFinish\<close>
  is recorded with the progress value at the moment of the call.
\<close>

datatype effect =
    Warn message
  | Error message
  | CallOnFinish callback real
  | CallCb callback

subsection \<open>getFrameCoords (lines 188-209)\<close>

text \<open>
  \<open>dev\<close> is the global \<open>__DEV__\<close> of React Native, a parameter here. JavaScript's \<open>%\<close>
  is the truncated remainder \<open>smod\<close>; \<open>Math.floor(frameIndex / columns)\<close> is the floor of
  the real quotient. Both are only reached when \<open>0 \<le> frameIndex < columns * rows\<close>, which
  excludes \<open>columns = 0\<close>.
\<close>

definition getFrameCoords :: "bool \<Rightarrow> SpritesProps \<Rightarrow> int \<Rightarrow> FrameCoords \<times> effect list" where
  "getFrameCoords dev p frameIndex =
    (let totalFrames = columns p * rows p in
     if frameIndex < 0 \<or> frameIndex \<ge> totalFrames then
       (\<lparr>translateX = 0, translateY = 0\<rparr>,
        if dev then [Warn (FrameOutOfBounds frameIndex (totalFrames - 1))] else [])
     else
       let column = frameIndex smod columns p;
           row = \<lfloor>real_of_int frameIndex / real_of_int (columns p)\<rfloor>;
           translateX = - real_of_int column * computedFrameWidth p - offsetX p;
           translateY = - real_of_int row * computedFrameHeight p - offsetY p
       in (\<lparr>translateX = translateX, translateY = translateY\<rparr>, []))"

subsection \<open>generateFrames (lines 212-227)\<close>

text \<open>
  The \<open>for\<close> loop of lines 221-223, with the loop variable \<open>i\<close> and the array \<open>frames\<close>
  as arguments; \<open>frames.push\<close> appends. The parameters \<open>row\<close>, \<open>startFrame\<close> and
  \<open>endFrame\<close> of the source are written \<open>rowN\<close>, \<open>startF\<close> and \<open>endF\<close>, since the
  record fields of the same names are constants here.
\<close>

function generateFrames_loop :: "int \<Rightarrow> int \<Rightarrow> int \<Rightarrow> int list \<Rightarrow> int list" where
  "generateFrames_loop baseFrame i endF frames =
    (if i \<le> endF
     then generateFrames_loop baseFrame (i + 1) endF (frames @ [baseFrame + i])
     else frames)"
  by pat_completeness auto
termination
  by (relation "measure (\<lambda>(baseFrame, i, endF, frames). nat (endF + 1 - i))") auto

declare generateFrames_loop.simps [simp del]

definition generateFrames :: "int \<Rightarrow> int \<Rightarrow> int \<Rightarrow> int \<Rightarrow> int list" where
  "generateFrames rowN startF endF totalColumns =
    (let baseFrame = rowN * totalColumns
     in generateFrames_loop baseFrame startF endF [])"

subsection \<open>interpolationRanges (lines 230-270)\<close>

text \<open>
  One axis of a curve: the \<open>input\<close> and \<open>output\<close> arrays of lines 264-265 (the fields are
  written \<open>inputs\<close> and \<open>outputs\<close>). A curve has one per axis; the source calls them
  \<open>translateX\<close> and \<open>translateY\<close>, written \<open>translateX_range\<close> and \<open>translateY_range\<close>
  to keep them apart from the fields of the frame coordinates.
\<close>

record Range =
  inputs :: "nat list"
  outputs :: "real list"

record Curve =
  translateX_range :: Range
  translateY_range :: Range

text \<open>
  \<open>frames.forEach((frameIndex, index) => ...)\<close> of lines 255-261: the arrays
  \<open>inputRange\<close>, \<open>outputRangeX\<close> and \<open>outputRangeY\<close> are threaded through, together with
  the console lines that \<open>getFrameCoords\<close> produces.
\<close>

fun frames_forEach ::
  "bool \<Rightarrow> SpritesProps \<Rightarrow> int list \<Rightarrow> nat
    \<Rightarrow> nat list \<times> real list \<times> real list \<times> effect list
    \<Rightarrow> nat list \<times> real list \<times> real list \<times> effect list" where
  "frames_forEach dev p [] index acc = acc"
| "frames_forEach dev p (frameIndex # rest) index (inputRange, outputRangeX, outputRangeY, console) =
    (let (coords, w) = getFrameCoords dev p frameIndex
     in frames_forEach dev p rest (index + 1)
          (inputRange @ [index, index + 1],
           outputRangeX @ [translateX coords, translateX coords],
           outputRangeY @ [translateY coords, translateY coords],
           console @ w))"

text \<open>
  The body of \<open>Object.entries(animations).forEach\<close> (lines 240-267) on one entry:
  \<open>ranges\<close> is the object being filled, \<open>console\<close> the console lines so far.
\<close>

definition interpolationRanges_entry ::
  "bool \<Rightarrow> SpritesProps \<Rightarrow> string \<times> AnimationDef
    \<Rightarrow> (string \<rightharpoonup> Curve) \<times> effect list \<Rightarrow> (string \<rightharpoonup> Curve) \<times> effect list" where
  "interpolationRanges_entry dev p entry acc =
    (case entry of (key, anim) \<Rightarrow>
     case acc of (ranges, console) \<Rightarrow>
       let frames = generateFrames (row anim) (startFrame anim) (endFrame anim) (columns p) in
       if length frames < 2 then
         (ranges, console @ [Warn (RequiresTwoFrames key (length frames))])
       else
         case frames_forEach dev p frames 0 ([], [], [], []) of
           (inputRange, outputRangeX, outputRangeY, w) \<Rightarrow>
             (ranges(key \<mapsto>
                \<lparr>translateX_range = \<lparr>inputs = inputRange, outputs = outputRangeX\<rparr>,
                 translateY_range = \<lparr>inputs = inputRange, outputs = outputRangeY\<rparr>\<rparr>),
              console @ w))"

definition interpolationRanges ::
  "bool \<Rightarrow> SpritesProps \<Rightarrow> (string \<rightharpoonup> Curve) \<times> effect list" where
  "interpolationRanges dev p =
    fold (interpolationRanges_entry dev p) (animations p) (Map.empty, [])"

text \<open>
  The curve that the loop of lines 255-261 builds from a frame list, in closed form
  (\<open>frames_forEach_eq\<close> below proves it): progress \<open>k, k + 1\<close> for the \<open>k\<close>-th frame, and
  the frame's translation twice.
\<close>

definition curveOf :: "bool \<Rightarrow> SpritesProps \<Rightarrow> int list \<Rightarrow> Curve" where
  "curveOf dev p frames =
    \<lparr>translateX_range =
       \<lparr>inputs = concat (map (\<lambda>k. [k, k + 1]) [0..<length frames]),
        outputs = concat (map (\<lambda>f. [translateX (fst (getFrameCoords dev p f)),
                                     translateX (fst (getFrameCoords dev p f))]) frames)\<rparr>,
     translateY_range =
       \<lparr>inputs = concat (map (\<lambda>k. [k, k + 1]) [0..<length frames]),
        outputs = concat (map (\<lambda>f. [translateY (fst (getFrameCoords dev p f)),
                                     translateY (fst (getFrameCoords dev p f))]) frames)\<rparr>\<rparr>"

section \<open>Playback (lines 320-391)\<close>

subsection \<open>The session and the animation driver\<close>

text \<open>
  The mutable state of one component instance: the React state \<open>animationType\<close>
  (line 181) and the \<open>Animated.Value\<close> of line 180, which holds the progress
  (\<open>animatedValue\<close>) and, while an advance is in flight, the animation driving it
  (\<open>running\<close>).
\<close>

datatype easing = Linear

record TimingConfig =
  toValue :: nat
  duration :: "real option"
  easing :: easing
  useNativeDriver :: bool

text \<open>
  The completion callback that \<open>play\<close> hands to \<open>animation.start\<close> (lines 360-365) is a
  closure over \<open>resetAfterFinish\<close> and \<open>onFinish\<close>; it takes no argument, so the
  \<open>{finished}\<close> result that the driver passes to it is dropped.
\<close>

datatype endCallback = FinishCallback bool callback

record Animation =
  config :: TimingConfig
  looping :: bool
  onEnd :: "endCallback option"

record Session =
  animationType :: "string option"
  animatedValue :: real
  running :: "Animation option"

definition initialSession :: Session where
  "initialSession = \<lparr>animationType = None, animatedValue = 0, running = None\<rparr>"

text \<open>
  The body of the closure of lines 360-365. When the driver calls it, the animation is
  already detached from the value, so \<open>animatedValue.setValue(0)\<close> only writes the value.
\<close>

definition runEndCallback :: "endCallback \<Rightarrow> Session \<Rightarrow> Session \<times> effect list" where
  "runEndCallback c s =
    (case c of FinishCallback resetAfterFinish onFinish \<Rightarrow>
       let s1 = (if resetAfterFinish then s\<lparr>animatedValue := 0\<rparr> else s)
       in (s1, [CallOnFinish onFinish (animatedValue s1)]))"

text \<open>
  React Native's \<open>Animated\<close> library is a dependency of the component, not part of the
  repository. The four definitions below state the part of its documented contract that
  the component relies on:
  \<^item> an animation that ends, whether it ran to its end or was stopped, is detached from
    the value and the callback given to \<open>start\<close> is called once, with \<open>{finished: true}\<close>
    or \<open>{finished: false}\<close> (\<open>endAnimation\<close>);
  \<^item> \<open>setValue\<close> stops the animation in flight and writes the value;
    \<open>stopAnimation\<close> stops it and then calls its own callback, if one is given;
  \<^item> \<open>Animated.timing(value, config).start(callback)\<close> replaces the animation in flight;
    \<open>Animated.loop(animation).start()\<close> starts it repeating, with no callback.
\<close>

definition endAnimation :: "Session \<Rightarrow> Session \<times> effect list" where
  "endAnimation s =
    (case running s of
       None \<Rightarrow> (s, [])
     | Some a \<Rightarrow>
        (case onEnd a of
           None \<Rightarrow> (s\<lparr>running := None\<rparr>, [])
         | Some c \<Rightarrow> runEndCallback c (s\<lparr>running := None\<rparr>)))"

definition setValue :: "real \<Rightarrow> Session \<Rightarrow> Session \<times> effect list" where
  "setValue v s = (case endAnimation s of (s1, es) \<Rightarrow> (s1\<lparr>animatedValue := v\<rparr>, es))"

definition stopAnimation :: "callback option \<Rightarrow> Session \<Rightarrow> Session \<times> effect list" where
  "stopAnimation cb s =
    (case endAnimation s of (s1, es) \<Rightarrow>
       (s1, es @ (case cb of None \<Rightarrow> [] | Some f \<Rightarrow> [CallCb f])))"

definition startAnimation :: "Animation \<Rightarrow> Session \<Rightarrow> Session \<times> effect list" where
  "startAnimation a s = (case endAnimation s of (s1, es) \<Rightarrow> (s1\<lparr>running := Some a\<rparr>, es))"

subsection \<open>play, stop, reset\<close>

text \<open>
  The options of \<open>play\<close> (lines 28-34); an absent optional field is \<open>None\<close> and takes the
  default of lines 325-328.
\<close>

record PlayOptions =
  type :: string
  fps :: "real option"
  loop :: "bool option"
  resetAfterFinish :: "bool option"
  onFinish :: "callback option"

definition DEFAULT_FPS :: real where
  "DEFAULT_FPS = 24"

text \<open>
  \<open>(frames.length / fps) * 1000\<close> of line 348. Dividing by zero gives an infinite
  duration in JavaScript, which is \<open>None\<close> here.
\<close>

definition durationOf :: "nat \<Rightarrow> real \<Rightarrow> real option" where
  "durationOf n fpsV = (if fpsV = 0 then None else Some ((real n / fpsV) * 1000))"

definition play :: "SpritesProps \<Rightarrow> PlayOptions \<Rightarrow> Session \<Rightarrow> Session \<times> effect list" where
  "play p options s =
    (let typeV = type options;
         fpsV = (case fps options of None \<Rightarrow> DEFAULT_FPS | Some v \<Rightarrow> v);
         loopV = (case loop options of None \<Rightarrow> False | Some b \<Rightarrow> b);
         resetAfterFinishV = (case resetAfterFinish options of None \<Rightarrow> False | Some b \<Rightarrow> b);
         onFinishV = (case onFinish options of None \<Rightarrow> Noop | Some f \<Rightarrow> f)
     in
     case map_of (animations p) typeV of
       None \<Rightarrow> (s, [Error (TypeNotFound typeV)])
     | Some anim \<Rightarrow>
        let frames = generateFrames (row anim) (startFrame anim) (endFrame anim) (columns p) in
        if length frames < 2 then
          (s, [Error (RequiresTwoFrames typeV (length frames))])
        else
          case setValue 0 (s\<lparr>animationType := Some typeV\<rparr>) of (s1, es1) \<Rightarrow>
            let animation =
                  \<lparr>toValue = length frames, duration = durationOf (length frames) fpsV,
                   easing = Linear, useNativeDriver = True\<rparr>
            in
            case (if loopV
                  then startAnimation \<lparr>config = animation, looping = True, onEnd = None\<rparr> s1
                  else startAnimation
                         \<lparr>config = animation, looping = False,
                          onEnd = Some (FinishCallback resetAfterFinishV onFinishV)\<rparr> s1)
            of (s2, es2) \<Rightarrow> (s2, es1 @ es2))"


definition reset :: "callback option \<Rightarrow> Session \<Rightarrow> Session \<times> effect list" where
  "reset cb s =
    (case stopAnimation cb s of (s1, es1) \<Rightarrow>
     case setValue 0 s1 of (s2, es2) \<Rightarrow> (s2, es1 @ es2))"

subsection \<open>Runs of a session\<close>









fun isError :: "effect \<Rightarrow> bool" where
  "isError (Error m) = True"
| "isError e = False"

text \<open>The frame list of an animation definition, as lines 242 and 336 compute it.\<close>

abbreviation framesOf :: "SpritesProps \<Rightarrow> AnimationDef \<Rightarrow> int list" where
  "framesOf p anim \<equiv> generateFrames (row anim) (startFrame anim) (endFrame anim) (columns p)"


text \<open>The configuration of the component's test suite: five columns, one row, \<open>run\<close>.\<close>

definition testProps :: SpritesProps where
  "testProps =
    \<lparr>columns = 5, rows = 1,
     animations = [(''run'', \<lparr>row = 0, startFrame = 0, endFrame = 4\<rparr>)],
     computedFrameWidth = 64, computedFrameHeight = 64, offsetX = 0, offsetY = 0\<rparr>"

text \<open>
  Two more configurations on the same sheet: an animation on a row that the grid does not
  have, and an animation whose range is reversed.
\<close>

definition farProps :: SpritesProps where
  "farProps = testProps\<lparr>animations := [(''far'', \<lparr>row = 3, startFrame = 0, endFrame = 1\<rparr>)]\<rparr>"

definition reversedProps :: SpritesProps where
  "reversedProps = testProps\<lparr>animations := [(''back'', \<lparr>row = 0, startFrame = 4, endFrame = 0\<rparr>)]\<rparr>"

text \<open>
  The sheet of the test suite with a one-frame animation; \<open>play\<close> with every option left
  to its default; and a session in the middle of a looping run of \<open>run\<close>.
\<close>

definition singleProps :: SpritesProps where
  "singleProps = testProps\<lparr>animations := [(''run'', \<lparr>row = 0, startFrame = 0, endFrame = 0\<rparr>)]\<rparr>"

definition runOptions :: PlayOptions where
  "runOptions =
    \<lparr>type = ''run'', fps = None, loop = None, resetAfterFinish = None, onFinish = None\<rparr>"

definition midRun :: Session where
  "midRun =
    \<lparr>animationType = Some ''run'', animatedValue = 5 / 2,
     running = Some
       \<lparr>config = \<lparr>toValue = 5, duration = Some (625 / 3), easing = Linear,
                   useNativeDriver = True\<rparr>,
        looping = True, onEnd = None\<rparr>\<rparr>"


section \<open>Properties of the geometry and of the frame list\<close>

lemma generateFrames_loop_eq:
  "generateFrames_loop b i e fs = fs @ map (\<lambda>j. b + j) [i..e]"
proof (induction b i e fs rule: generateFrames_loop.induct)
  case (1 b i e fs)
  show ?case
  proof (cases "i \<le> e")
    case True
    then have "[i..e] = i # [i + 1..e]"
      by (simp add: upto_rec1)
    with True 1 show ?thesis
      by (simp add: generateFrames_loop.simps [of b i e fs])
  next
    case False
    then show ?thesis
      by (simp add: generateFrames_loop.simps [of b i e fs])
  qed
qed

lemma generateFrames_eq:
  "generateFrames r s e c = map (\<lambda>j. r * c + j) [s..e]"
  by (simp add: generateFrames_def generateFrames_loop_eq)

lemma length_generateFrames:
  "length (generateFrames r s e c) = nat (e - s + 1)"
  by (simp add: generateFrames_eq)

lemma smod_nonneg:
  "0 \<le> (a::int) \<Longrightarrow> a smod b = a mod \<bar>b\<bar>"
  by (simp add: signed_modulo_int_def sgn_if)

subsection \<open>The curve builder\<close>

lemma frames_forEach_eq:
  "frames_forEach dev p fs i (inp, ox, oy, w) =
    (inp @ concat (map (\<lambda>k. [k, k + 1]) [i..<i + length fs]),
     ox @ concat (map (\<lambda>f. [translateX (fst (getFrameCoords dev p f)),
                              translateX (fst (getFrameCoords dev p f))]) fs),
     oy @ concat (map (\<lambda>f. [translateY (fst (getFrameCoords dev p f)),
                              translateY (fst (getFrameCoords dev p f))]) fs),
     w @ concat (map (\<lambda>f. snd (getFrameCoords dev p f)) fs))"
proof (induction fs arbitrary: i inp ox oy w)
  case Nil
  show ?case by simp
next
  case (Cons f fs)
  have u: "[i..<i + length (f # fs)] = i # [Suc i..<Suc i + length fs]"
    by (simp add: upt_rec)
  show ?case
    by (simp only: u) (simp add: Cons.IH split: prod.split)
qed

lemma length_concat_pairs:
  "length (concat (map (\<lambda>x. [g x, h x]) xs)) = 2 * length xs"
  by (induction xs) simp_all

lemma nth_concat_pairs:
  "k < length xs \<Longrightarrow>
     concat (map (\<lambda>x. [g x, h x]) xs) ! (2 * k) = g (xs ! k)
     \<and> concat (map (\<lambda>x. [g x, h x]) xs) ! (2 * k + 1) = h (xs ! k)"
proof (induction xs arbitrary: k)
  case Nil
  then show ?case by simp
next
  case (Cons x xs)
  show ?case
  proof (cases k)
    case 0
    then show ?thesis by simp
  next
    case (Suc j)
    with Cons.prems have "j < length xs" by simp
    from Cons.IH [OF this] Suc show ?thesis by simp
  qed
qed

lemma interpolationRanges_entry_eq:
  "interpolationRanges_entry dev p (key, anim) (ranges, w) =
    (let frames = generateFrames (row anim) (startFrame anim) (endFrame anim) (columns p) in
     if length frames < 2
     then (ranges, w @ [Warn (RequiresTwoFrames key (length frames))])
     else (ranges(key \<mapsto> curveOf dev p frames),
           w @ concat (map (\<lambda>f. snd (getFrameCoords dev p f)) frames)))"
  by (simp add: interpolationRanges_entry_def Let_def frames_forEach_eq curveOf_def)

lemma fold_entry_ranges:
  "distinct (map fst es) \<Longrightarrow>
   fst (fold (interpolationRanges_entry dev p) es (ranges, w)) name =
    (case map_of es name of
       None \<Rightarrow> ranges name
     | Some anim \<Rightarrow>
        (let frames = generateFrames (row anim) (startFrame anim) (endFrame anim) (columns p) in
         if length frames < 2 then ranges name else Some (curveOf dev p frames)))"
proof (induction es arbitrary: ranges w)
  case Nil
  show ?case by simp
next
  case (Cons e es)
  obtain key anim where e: "e = (key, anim)" by (cases e)
  from Cons.prems have d: "distinct (map fst es)" and k: "key \<notin> fst ` set es"
    by (simp_all add: e)
  from k have n: "map_of es key = None"
    by (simp add: map_of_eq_None_iff)
  show ?case
  proof (cases "name = key")
    case True
    from e True have e': "e = (name, anim)" by simp
    from n True have n': "map_of es name = None" by simp
    show ?thesis
      by (simp add: e' n' interpolationRanges_entry_eq Let_def Cons.IH [OF d])
  next
    case False
    then show ?thesis
      by (simp add: e interpolationRanges_entry_eq Let_def Cons.IH [OF d] split: option.split)
  qed
qed

lemma interpolationRanges_lookup:
  "distinct (map fst (animations p)) \<Longrightarrow>
   fst (interpolationRanges dev p) name =
    (case map_of (animations p) name of
       None \<Rightarrow> None
     | Some anim \<Rightarrow>
        (let frames = generateFrames (row anim) (startFrame anim) (endFrame anim) (columns p) in
         if length frames < 2 then None else Some (curveOf dev p frames)))"
  by (simp add: interpolationRanges_def fold_entry_ranges)

lemma fold_entry_console_mono:
  "set w \<subseteq> set (snd (fold (interpolationRanges_entry dev p) es (ranges, w)))"
proof (induction es arbitrary: ranges w)
  case Nil
  show ?case by simp
next
  case (Cons e es)
  obtain key anim where e: "e = (key, anim)" by (cases e)
  show ?case
    using Cons.IH by (fastforce simp add: e interpolationRanges_entry_eq Let_def)
qed

lemma fold_entry_console_warns:
  "(key, anim) \<in> set es \<Longrightarrow>
   length (generateFrames (row anim) (startFrame anim) (endFrame anim) (columns p)) < 2 \<Longrightarrow>
   Warn (RequiresTwoFrames key
          (length (generateFrames (row anim) (startFrame anim) (endFrame anim) (columns p))))
     \<in> set (snd (fold (interpolationRanges_entry dev p) es (ranges, w)))"
proof (induction es arbitrary: ranges w)
  case Nil
  then show ?case by simp
next
  case (Cons e es)
  obtain key' anim' where e: "e = (key', anim')" by (cases e)
  show ?case
  proof (cases "e = (key, anim)")
    case True
    with Cons.prems(2) show ?thesis
      using fold_entry_console_mono
        [of "w @ [Warn (RequiresTwoFrames key
          (length (generateFrames (row anim) (startFrame anim) (endFrame anim) (columns p))))]"
          dev p es ranges]
      by (simp add: interpolationRanges_entry_eq Let_def)
  next
    case False
    with Cons.prems have "(key, anim) \<in> set es" by simp
    from Cons.IH [OF this Cons.prems(2)] show ?thesis
      by (simp add: e interpolationRanges_entry_eq Let_def)
  qed
qed

lemma nth_generateFrames:
  "k < length (generateFrames r s e c) \<Longrightarrow> generateFrames r s e c ! k = r * c + s + int k"
  by (simp add: generateFrames_eq)

lemma registered_iff:
  assumes "distinct (map fst (animations p))"
  shows "fst (interpolationRanges dev p) name = Some c \<longleftrightarrow>
    (\<exists>anim. map_of (animations p) name = Some anim \<and> 2 \<le> length (framesOf p anim)
       \<and> c = curveOf dev p (framesOf p anim))"
  by (auto simp add: interpolationRanges_lookup [OF assms] Let_def split: option.splits if_splits)

lemma unregistered_iff:
  assumes "distinct (map fst (animations p))"
  shows "fst (interpolationRanges dev p) name = None \<longleftrightarrow>
    (map_of (animations p) name = None
     \<or> (\<exists>anim. map_of (animations p) name = Some anim \<and> length (framesOf p anim) < 2))"
  by (auto simp add: interpolationRanges_lookup [OF assms] Let_def split: option.splits if_splits)

lemma curveOf_lengths:
  "length (inputs (translateX_range (curveOf dev p fs))) = 2 * length fs"
  "length (outputs (translateX_range (curveOf dev p fs))) = 2 * length fs"
  "length (outputs (translateY_range (curveOf dev p fs))) = 2 * length fs"
  "inputs (translateY_range (curveOf dev p fs)) = inputs (translateX_range (curveOf dev p fs))"
  by (simp_all add: curveOf_def length_concat_pairs)

lemma curveOf_inputs_nth:
  assumes "k < length fs"
  shows "inputs (translateX_range (curveOf dev p fs)) ! (2 * k) = k"
    and "inputs (translateX_range (curveOf dev p fs)) ! Suc (2 * k) = Suc k"
  using nth_concat_pairs [of k "[0..<length fs]" "\<lambda>k. k" "\<lambda>k. k + 1"] assms
  by (simp_all add: curveOf_def)

lemma curveOf_outputs_nth:
  assumes "k < length fs"
  shows "outputs (translateX_range (curveOf dev p fs)) ! (2 * k)
           = translateX (fst (getFrameCoords dev p (fs ! k)))"
    and "outputs (translateX_range (curveOf dev p fs)) ! Suc (2 * k)
           = translateX (fst (getFrameCoords dev p (fs ! k)))"
    and "outputs (translateY_range (curveOf dev p fs)) ! (2 * k)
           = translateY (fst (getFrameCoords dev p (fs ! k)))"
    and "outputs (translateY_range (curveOf dev p fs)) ! Suc (2 * k)
           = translateY (fst (getFrameCoords dev p (fs ! k)))"
  using nth_concat_pairs [OF assms,
      of "\<lambda>f. translateX (fst (getFrameCoords dev p f))"
         "\<lambda>f. translateX (fst (getFrameCoords dev p f))"]
    nth_concat_pairs [OF assms,
      of "\<lambda>f. translateY (fst (getFrameCoords dev p f))"
         "\<lambda>f. translateY (fst (getFrameCoords dev p f))"]
  by (simp_all add: curveOf_def)

section \<open>Properties of playback\<close>

subsection \<open>The driver\<close>

lemma endAnimation_idle:
  "running s = None \<Longrightarrow> endAnimation s = (s, [])"
  by (simp add: endAnimation_def)

lemma endAnimation_no_callback:
  "running s = Some a \<Longrightarrow> onEnd a = None \<Longrightarrow> endAnimation s = (s\<lparr>running := None\<rparr>, [])"
  by (simp add: endAnimation_def)

lemma endAnimation_callback:
  "running s = Some a \<Longrightarrow> onEnd a = Some (FinishCallback r f) \<Longrightarrow>
     endAnimation s =
       (if r then (s\<lparr>running := None, animatedValue := 0\<rparr>, [CallOnFinish f 0])
        else (s\<lparr>running := None\<rparr>, [CallOnFinish f (animatedValue s)]))"
  by (simp add: endAnimation_def runEndCallback_def Let_def)

lemma endAnimation_cases:
  obtains (idle) "running s = None" "endAnimation s = (s, [])"
  | (silent) a where "running s = Some a" "onEnd a = None"
      "endAnimation s = (s\<lparr>running := None\<rparr>, [])"
  | (reset) a f where "running s = Some a" "onEnd a = Some (FinishCallback True f)"
      "endAnimation s = (s\<lparr>running := None, animatedValue := 0\<rparr>, [CallOnFinish f 0])"
  | (keep) a f where "running s = Some a" "onEnd a = Some (FinishCallback False f)"
      "endAnimation s = (s\<lparr>running := None\<rparr>, [CallOnFinish f (animatedValue s)])"
proof (cases "running s")
  case None
  then show ?thesis using idle endAnimation_idle by blast
next
  case (Some a)
  show ?thesis
  proof (cases "onEnd a")
    case None
    with Some show ?thesis using silent endAnimation_no_callback by blast
  next
    case (Some c)
    obtain r f where c: "c = FinishCallback r f" by (cases c)
    show ?thesis
    proof (cases r)
      case True
      with \<open>running s = Some a\<close> Some c show ?thesis
        using reset [of a f] endAnimation_callback [of s a True f] by simp
    next
      case False
      with \<open>running s = Some a\<close> Some c show ?thesis
        using keep [of a f] endAnimation_callback [of s a False f] by simp
    qed
  qed
qed

lemma endAnimation_running:
  "running (fst (endAnimation s)) = None"
  by (cases s rule: endAnimation_cases) simp_all

lemma endAnimation_animationType:
  "animationType (fst (endAnimation s)) = animationType s"
  by (cases s rule: endAnimation_cases) simp_all

lemma endAnimation_no_errors:
  "filter isError (snd (endAnimation s)) = []"
  by (cases s rule: endAnimation_cases) simp_all






lemma startAnimation_idle:
  "running s = None \<Longrightarrow> startAnimation a s = (s\<lparr>running := Some a\<rparr>, [])"
  by (simp add: startAnimation_def endAnimation_idle)


subsection \<open>play\<close>

lemma play_unknown:
  "map_of (animations p) (type options) = None \<Longrightarrow>
     play p options s = (s, [Error (TypeNotFound (type options))])"
  by (simp add: play_def)

lemma play_too_few:
  "map_of (animations p) (type options) = Some anim \<Longrightarrow> length (framesOf p anim) < 2 \<Longrightarrow>
     play p options s = (s, [Error (RequiresTwoFrames (type options) (length (framesOf p anim)))])"
  by (simp add: play_def)

lemma play_success:
  assumes "map_of (animations p) (type options) = Some anim" "2 \<le> length (framesOf p anim)"
  shows "play p options s =
    ((fst (endAnimation (s\<lparr>animationType := Some (type options)\<rparr>)))
       \<lparr>animatedValue := 0,
        running := Some
          \<lparr>config = \<lparr>toValue = length (framesOf p anim),
                      duration = durationOf (length (framesOf p anim))
                                   (case fps options of None \<Rightarrow> DEFAULT_FPS | Some v \<Rightarrow> v),
                      easing = Linear, useNativeDriver = True\<rparr>,
           looping = (case loop options of None \<Rightarrow> False | Some b \<Rightarrow> b),
           onEnd = (if (case loop options of None \<Rightarrow> False | Some b \<Rightarrow> b) then None
                    else Some (FinishCallback
                           (case resetAfterFinish options of None \<Rightarrow> False | Some b \<Rightarrow> b)
                           (case onFinish options of None \<Rightarrow> Noop | Some f \<Rightarrow> f)))\<rparr>\<rparr>,
     snd (endAnimation (s\<lparr>animationType := Some (type options)\<rparr>)))"
proof -
  from assms(2) have n: "\<not> length (framesOf p anim) < 2"
    by simp
  show ?thesis
    using assms(1) n
    by (simp add: play_def Let_def split_beta startAnimation_idle
        setValue_def endAnimation_running)
qed

subsection \<open>Runs\<close>










subsection \<open>The test configuration\<close>



section \<open>The claims about geometry and frame lists\<close>

text \<open>
  C1. For every frame index with \<open>0 \<le> frameIndex < columns * rows\<close>, \<open>getFrameCoords\<close>
  prints nothing and returns
  \<open>translateX = -(frameIndex mod columns) * frameWidth - offsetX\<close> and
  \<open>translateY = -floor(frameIndex / columns) * frameHeight - offsetY\<close>, where \<open>mod\<close> is the
  remainder in \<open>[0, |columns|)\<close>: the usual one for a positive number of columns, as the
  data model has it. In particular, with four columns, frames of 64 by 64 and no offsets,
  frame 5 (inside the grid) is at \<open>{translateX: -64, translateY: -64}\<close>.
\<close>

theorem getFrameCoords_valid_index:
  "(0 \<le> frameIndex \<and> frameIndex < columns p * rows p \<longrightarrow>
      getFrameCoords dev p frameIndex =
        (\<lparr>translateX =
            - real_of_int (frameIndex mod \<bar>columns p\<bar>) * computedFrameWidth p - offsetX p,
          translateY =
            - real_of_int (frameIndex div columns p) * computedFrameHeight p - offsetY p\<rparr>,
         []))
   \<and> (0 < columns p \<and> 0 \<le> frameIndex \<and> frameIndex < columns p * rows p \<longrightarrow>
      getFrameCoords dev p frameIndex =
        (\<lparr>translateX =
            - real_of_int (frameIndex mod columns p) * computedFrameWidth p - offsetX p,
          translateY =
            - real_of_int (frameIndex div columns p) * computedFrameHeight p - offsetY p\<rparr>,
         []))
   \<and> (columns p = 4 \<and> 5 < columns p * rows p \<and> computedFrameWidth p = 64
        \<and> computedFrameHeight p = 64 \<and> offsetX p = 0 \<and> offsetY p = 0 \<longrightarrow>
      fst (getFrameCoords dev p 5) = \<lparr>translateX = - 64, translateY = - 64\<rparr>)"
proof -
  have d: "\<lfloor>real_of_int frameIndex / real_of_int (columns p)\<rfloor> = frameIndex div columns p"
    by (rule floor_divide_of_int_eq)
  have general: "getFrameCoords dev p frameIndex =
        (\<lparr>translateX =
            - real_of_int (frameIndex mod \<bar>columns p\<bar>) * computedFrameWidth p - offsetX p,
          translateY =
            - real_of_int (frameIndex div columns p) * computedFrameHeight p - offsetY p\<rparr>,
         [])"
    if h: "0 \<le> frameIndex \<and> frameIndex < columns p * rows p"
  proof -
    from h have m: "frameIndex smod columns p = frameIndex mod \<bar>columns p\<bar>"
      by (simp add: smod_nonneg)
    from h show ?thesis
      by (simp add: getFrameCoords_def Let_def m d)
  qed
  have positive: "getFrameCoords dev p frameIndex =
        (\<lparr>translateX =
            - real_of_int (frameIndex mod columns p) * computedFrameWidth p - offsetX p,
          translateY =
            - real_of_int (frameIndex div columns p) * computedFrameHeight p - offsetY p\<rparr>,
         [])"
    if h: "0 < columns p \<and> 0 \<le> frameIndex \<and> frameIndex < columns p * rows p"
    using general h by simp
  have example: "fst (getFrameCoords dev p 5) = \<lparr>translateX = - 64, translateY = - 64\<rparr>"
    if h: "columns p = 4 \<and> 5 < columns p * rows p \<and> computedFrameWidth p = 64
        \<and> computedFrameHeight p = 64 \<and> offsetX p = 0 \<and> offsetY p = 0"
  proof -
    have m: "(5::int) smod 4 = 1"
      by (simp add: signed_modulo_int_def)
    have f: "\<lfloor>real_of_int 5 / real_of_int 4\<rfloor> = (1::int)"
      by (simp add: floor_divide_of_int_eq)
    from h have r: "\<not> (4 * rows p \<le> 5)"
      by auto
    from h show ?thesis
      using f r by (simp add: getFrameCoords_def Let_def m)
  qed
  from general positive example show ?thesis
    by blast
qed

theorem getFrameCoords_valid_index_witness:
  "getFrameCoords True (testProps\<lparr>columns := 4, rows := 4\<rparr>) 5
     = (\<lparr>translateX = - 64, translateY = - 64\<rparr>, [])
   \<and> fst (getFrameCoords False (testProps\<lparr>columns := 4, rows := 4\<rparr>) 5)
     = \<lparr>translateX = - 64, translateY = - 64\<rparr>"
  using getFrameCoords_valid_index
          [where p = "testProps\<lparr>columns := 4, rows := 4\<rparr>" and frameIndex = 5 and dev = True]
        getFrameCoords_valid_index
          [where p = "testProps\<lparr>columns := 4, rows := 4\<rparr>" and frameIndex = 5 and dev = False]
  by (simp add: testProps_def)

text \<open>
  C6, as stated, promises \<open>end - start + 1\<close> entries for every range. A range that is
  reversed by more than one has a negative \<open>end - start + 1\<close>, and the loop returns no
  entry.
\<close>

theorem generateFrames_reversed_counterexample:
  "int (length (generateFrames 0 3 0 4)) \<noteq> 0 - 3 + 1"
  by (simp add: length_generateFrames)

text \<open>
  C6 (amended). For every row, start, end and columns, \<open>generateFrames\<close> returns
  \<open>max 0 (end - start + 1)\<close> entries, the \<open>k\<close>-th being \<open>row * columns + start + k\<close>: these
  are \<open>row * columns + start, ..., row * columns + end\<close> in that order, exactly
  \<open>end - start + 1\<close> of them whenever \<open>start \<le> end + 1\<close>, and none when \<open>end < start\<close>.
\<close>

theorem generateFrames_entries:
  "length (generateFrames rowN startF endF totalColumns) = nat (endF - startF + 1)
   \<and> (\<forall>k < length (generateFrames rowN startF endF totalColumns).
         generateFrames rowN startF endF totalColumns ! k = rowN * totalColumns + startF + int k)
   \<and> (startF \<le> endF + 1 \<longrightarrow>
         int (length (generateFrames rowN startF endF totalColumns)) = endF - startF + 1)
   \<and> (endF < startF \<longrightarrow> generateFrames rowN startF endF totalColumns = [])"
  by (simp add: generateFrames_eq)

theorem generateFrames_entries_witness:
  "length (generateFrames 1 0 2 3) = 3 \<and> generateFrames 1 0 2 3 ! 2 = 5
   \<and> generateFrames 0 3 0 4 = []"
  using generateFrames_entries [of 1 0 2 3] generateFrames_entries [of 0 3 0 4]
  by simp

text \<open>
  C8, as stated, promises a warning for every frame index outside the grid. The warning
  of line 194 is guarded by \<open>__DEV__\<close>: a production build returns \<open>{0, 0}\<close> silently.
\<close>

theorem getFrameCoords_production_counterexample:
  "fst (getFrameCoords False testProps 7) = \<lparr>translateX = 0, translateY = 0\<rparr>
   \<and> snd (getFrameCoords False testProps 7) = []"
  by (simp add: getFrameCoords_def testProps_def)

text \<open>
  C8 (amended). For every frame index outside \<open>[0, columns * rows)\<close>, \<open>getFrameCoords\<close>
  returns \<open>{translateX: 0, translateY: 0}\<close>; it prints one warning, naming the index and
  the last valid index, when \<open>__DEV__\<close> is set, and nothing otherwise. It returns in both
  cases: no error is raised.
\<close>

theorem getFrameCoords_invalid_index:
  "frameIndex < 0 \<or> columns p * rows p \<le> frameIndex \<Longrightarrow>
     getFrameCoords dev p frameIndex =
       (\<lparr>translateX = 0, translateY = 0\<rparr>,
        if dev then [Warn (FrameOutOfBounds frameIndex (columns p * rows p - 1))] else [])"
  by (auto simp add: getFrameCoords_def Let_def)

theorem getFrameCoords_invalid_index_witness:
  "getFrameCoords True testProps 7 = (\<lparr>translateX = 0, translateY = 0\<rparr>, [Warn (FrameOutOfBounds 7 4)])
   \<and> getFrameCoords False testProps (- 1) = (\<lparr>translateX = 0, translateY = 0\<rparr>, [])"
  using getFrameCoords_invalid_index [of 7 testProps True]
        getFrameCoords_invalid_index [of "- 1" testProps False]
  by (simp add: testProps_def)

section \<open>The claims about the curve builder\<close>

text \<open>
  C2. For every animation definition whose frame list has at least two entries, the
  curve that \<open>interpolationRanges\<close> registers has, for the frame at position \<open>k\<close> of the
  list, exactly two keyframes, at progress \<open>k\<close> and \<open>k + 1\<close> (entries \<open>2k\<close> and \<open>2k + 1\<close>
  of the arrays), both carrying the offset that \<open>getFrameCoords\<close> gives for that frame, on
  each axis; so \<open>n\<close> frames give \<open>2n\<close> keyframes.
\<close>

theorem curve_two_keyframes_per_frame:
  assumes "distinct (map fst (animations p))"
      and "map_of (animations p) name = Some anim"
      and "2 \<le> length (framesOf p anim)"
  shows "\<exists>c. fst (interpolationRanges dev p) name = Some c
    \<and> inputs (translateY_range c) = inputs (translateX_range c)
    \<and> length (inputs (translateX_range c)) = 2 * length (framesOf p anim)
    \<and> length (outputs (translateX_range c)) = 2 * length (framesOf p anim)
    \<and> length (outputs (translateY_range c)) = 2 * length (framesOf p anim)
    \<and> (\<forall>k < length (framesOf p anim).
          inputs (translateX_range c) ! (2 * k) = k
        \<and> inputs (translateX_range c) ! (2 * k + 1) = k + 1
        \<and> outputs (translateX_range c) ! (2 * k)
            = translateX (fst (getFrameCoords dev p (framesOf p anim ! k)))
        \<and> outputs (translateX_range c) ! (2 * k + 1)
            = translateX (fst (getFrameCoords dev p (framesOf p anim ! k)))
        \<and> outputs (translateY_range c) ! (2 * k)
            = translateY (fst (getFrameCoords dev p (framesOf p anim ! k)))
        \<and> outputs (translateY_range c) ! (2 * k + 1)
            = translateY (fst (getFrameCoords dev p (framesOf p anim ! k))))"
proof -
  let ?c = "curveOf dev p (framesOf p anim)"
  have "fst (interpolationRanges dev p) name = Some ?c"
    using assms by (simp add: registered_iff)
  then show ?thesis
    by (intro exI [of _ ?c]) (simp add: curveOf_lengths curveOf_inputs_nth curveOf_outputs_nth)
qed

theorem curve_two_keyframes_per_frame_witness:
  "\<exists>c. fst (interpolationRanges True testProps) ''run'' = Some c
     \<and> length (inputs (translateX_range c)) = 10
     \<and> inputs (translateX_range c) ! 4 = 2 \<and> inputs (translateX_range c) ! 5 = 3
     \<and> outputs (translateX_range c) ! 4 = - 128 \<and> outputs (translateX_range c) ! 5 = - 128"
proof -
  let ?anim = "\<lparr>row = 0, startFrame = 0, endFrame = 4\<rparr>"
  have h1: "distinct (map fst (animations testProps))"
    by (simp add: testProps_def)
  have h2: "map_of (animations testProps) ''run'' = Some ?anim"
    by (simp add: testProps_def)
  have len: "length (framesOf testProps ?anim) = 5"
    by (simp add: length_generateFrames testProps_def)
  then have h3: "2 \<le> length (framesOf testProps ?anim)"
    by simp
  have f2: "framesOf testProps ?anim ! 2 = 2"
    using len nth_generateFrames [of 2 0 0 4 "columns testProps"] by simp
  have g2: "translateX (fst (getFrameCoords True testProps 2)) = - 128"
    by (simp add: getFrameCoords_def testProps_def signed_modulo_int_def)
  from curve_two_keyframes_per_frame [OF h1 h2 h3, of True]
  obtain c where c: "fst (interpolationRanges True testProps) ''run'' = Some c"
    "length (inputs (translateX_range c)) = 2 * length (framesOf testProps ?anim)"
    "\<forall>k < length (framesOf testProps ?anim).
          inputs (translateX_range c) ! (2 * k) = k
        \<and> inputs (translateX_range c) ! (2 * k + 1) = k + 1
        \<and> outputs (translateX_range c) ! (2 * k)
            = translateX (fst (getFrameCoords True testProps (framesOf testProps ?anim ! k)))
        \<and> outputs (translateX_range c) ! (2 * k + 1)
            = translateX (fst (getFrameCoords True testProps (framesOf testProps ?anim ! k)))
        \<and> outputs (translateY_range c) ! (2 * k)
            = translateY (fst (getFrameCoords True testProps (framesOf testProps ?anim ! k)))
        \<and> outputs (translateY_range c) ! (2 * k + 1)
            = translateY (fst (getFrameCoords True testProps (framesOf testProps ?anim ! k)))"
    by blast
  from c(3) [rule_format, of 2] len have "inputs (translateX_range c) ! (2 * 2) = 2
      \<and> inputs (translateX_range c) ! (2 * 2 + 1) = 2 + 1
      \<and> outputs (translateX_range c) ! (2 * 2)
            = translateX (fst (getFrameCoords True testProps (framesOf testProps ?anim ! 2)))
      \<and> outputs (translateX_range c) ! (2 * 2 + 1)
            = translateX (fst (getFrameCoords True testProps (framesOf testProps ?anim ! 2)))"
    by simp
  with c(1) c(2) len f2 g2 show ?thesis
    by (intro exI [of _ c]) simp
qed

text \<open>
  C10. The curve builder does not check frame indices against the grid: for every
  definition whose frame list has at least two entries a curve is registered, with two
  keyframes for every frame of the list, and \<open>play\<close> on its name starts a run without an
  error, whether or not the frame indices lie in \<open>[0, columns * rows)\<close>. Every entry outside
  that range contributes the offset \<open>{0, 0}\<close> at both of its keyframes.
\<close>

theorem curve_ignores_grid_bounds:
  assumes "distinct (map fst (animations p))"
      and "map_of (animations p) name = Some anim"
      and "2 \<le> length (framesOf p anim)"
  shows "\<exists>c. fst (interpolationRanges dev p) name = Some c
    \<and> length (outputs (translateX_range c)) = 2 * length (framesOf p anim)
    \<and> length (outputs (translateY_range c)) = 2 * length (framesOf p anim)
    \<and> (\<forall>k < length (framesOf p anim).
          framesOf p anim ! k < 0 \<or> columns p * rows p \<le> framesOf p anim ! k \<longrightarrow>
            outputs (translateX_range c) ! (2 * k) = 0
          \<and> outputs (translateX_range c) ! (2 * k + 1) = 0
          \<and> outputs (translateY_range c) ! (2 * k) = 0
          \<and> outputs (translateY_range c) ! (2 * k + 1) = 0)
    \<and> (type options = name \<longrightarrow>
          running (fst (play p options s)) \<noteq> None
        \<and> animationType (fst (play p options s)) = Some name
        \<and> filter isError (snd (play p options s)) = [])"
proof -
  let ?c = "curveOf dev p (framesOf p anim)"
  have reg: "fst (interpolationRanges dev p) name = Some ?c"
    using assms by (simp add: registered_iff)
  have zero: "translateX (fst (getFrameCoords dev p f)) = 0
      \<and> translateY (fst (getFrameCoords dev p f)) = 0"
    if "f < 0 \<or> columns p * rows p \<le> f" for f
    using that by (auto simp add: getFrameCoords_def Let_def)
  have playable: "running (fst (play p options s)) \<noteq> None
        \<and> animationType (fst (play p options s)) = Some name
        \<and> filter isError (snd (play p options s)) = []"
    if t: "type options = name"
  proof -
    from t assms(2) have m: "map_of (animations p) (type options) = Some anim"
      by simp
    show ?thesis
      using t by (simp add: play_success [OF m assms(3)] endAnimation_no_errors
          endAnimation_animationType)
  qed
  show ?thesis
    using reg playable zero
    by (intro exI [of _ ?c]) (simp add: curveOf_lengths curveOf_outputs_nth)
qed

theorem curve_ignores_grid_bounds_witness:
  "framesOf farProps \<lparr>row = 3, startFrame = 0, endFrame = 1\<rparr> ! 0 = 15
   \<and> columns farProps * rows farProps = 5
   \<and> (\<exists>c. fst (interpolationRanges True farProps) ''far'' = Some c
        \<and> length (outputs (translateX_range c)) = 4
        \<and> outputs (translateX_range c) ! 0 = 0 \<and> outputs (translateX_range c) ! 1 = 0)
   \<and> running (fst (play farProps
         \<lparr>type = ''far'', fps = None, loop = None, resetAfterFinish = None, onFinish = None\<rparr>
         initialSession)) \<noteq> None"
proof -
  let ?anim = "\<lparr>row = 3, startFrame = 0, endFrame = 1\<rparr>"
  let ?o = "\<lparr>type = ''far'', fps = None, loop = None, resetAfterFinish = None, onFinish = None\<rparr>"
  have h1: "distinct (map fst (animations farProps))"
    by (simp add: farProps_def testProps_def)
  have h2: "map_of (animations farProps) ''far'' = Some ?anim"
    by (simp add: farProps_def testProps_def)
  have len: "length (framesOf farProps ?anim) = 2"
    by (simp add: length_generateFrames)
  then have h3: "2 \<le> length (framesOf farProps ?anim)"
    by simp
  have f0: "framesOf farProps ?anim ! 0 = 15"
    using len nth_generateFrames [of 0 3 0 1 "columns farProps"]
    by (simp add: farProps_def testProps_def)
  have g: "columns farProps * rows farProps = 5"
    by (simp add: farProps_def testProps_def)
  from curve_ignores_grid_bounds [OF h1 h2 h3, of True ?o initialSession]
  obtain c where c: "fst (interpolationRanges True farProps) ''far'' = Some c"
    "length (outputs (translateX_range c)) = 2 * length (framesOf farProps ?anim)"
    "\<forall>k < length (framesOf farProps ?anim).
          framesOf farProps ?anim ! k < 0
            \<or> columns farProps * rows farProps \<le> framesOf farProps ?anim ! k \<longrightarrow>
            outputs (translateX_range c) ! (2 * k) = 0
          \<and> outputs (translateX_range c) ! (2 * k + 1) = 0
          \<and> outputs (translateY_range c) ! (2 * k) = 0
          \<and> outputs (translateY_range c) ! (2 * k + 1) = 0"
    "type ?o = ''far'' \<longrightarrow> running (fst (play farProps ?o initialSession)) \<noteq> None
        \<and> animationType (fst (play farProps ?o initialSession)) = Some ''far''
        \<and> filter isError (snd (play farProps ?o initialSession)) = []"
    by blast
  from len have ne: "framesOf farProps ?anim \<noteq> []"
    by auto
  from c(3) [rule_format, of 0] len f0 g ne
  have z: "outputs (translateX_range c) ! 0 = 0 \<and> outputs (translateX_range c) ! 1 = 0"
    by simp
  from c(4) have r: "running (fst (play farProps ?o initialSession)) \<noteq> None"
    by simp
  from c(1) c(2) len z have "\<exists>c. fst (interpolationRanges True farProps) ''far'' = Some c
        \<and> length (outputs (translateX_range c)) = 4
        \<and> outputs (translateX_range c) ! 0 = 0 \<and> outputs (translateX_range c) ! 1 = 0"
    by (intro exI [of _ c]) simp
  with f0 g r show ?thesis
    by blast
qed

text \<open>
  C9. For every animation definition with \<open>endFrame < startFrame\<close>, \<open>generateFrames\<close>
  returns the empty list; the animation gets no curve, the curve builder warns that it
  received 0 frames, and \<open>play\<close> on its name returns with an error line and the session
  unchanged. All of these are ordinary results: nothing is raised.
\<close>

theorem reversed_range_is_excluded:
  assumes "distinct (map fst (animations p))"
      and "map_of (animations p) name = Some anim"
      and "endFrame anim < startFrame anim"
  shows "framesOf p anim = []
    \<and> fst (interpolationRanges dev p) name = None
    \<and> Warn (RequiresTwoFrames name 0) \<in> set (snd (interpolationRanges dev p))
    \<and> (type options = name \<longrightarrow> play p options s = (s, [Error (RequiresTwoFrames name 0)]))"
proof -
  from assms(3) have e: "framesOf p anim = []"
    by (simp add: generateFrames_eq)
  then have l: "length (framesOf p anim) < 2"
    by simp
  from assms(2) have mem: "(name, anim) \<in> set (animations p)"
    by (rule map_of_SomeD)
  have "fst (interpolationRanges dev p) name = None"
    using assms(1) assms(2) l by (simp add: unregistered_iff)
  moreover have "Warn (RequiresTwoFrames name 0) \<in> set (snd (interpolationRanges dev p))"
    using fold_entry_console_warns [OF mem l, of dev Map.empty "[]"] e
    by (simp add: interpolationRanges_def)
  moreover have "play p options s = (s, [Error (RequiresTwoFrames name 0)])"
    if "type options = name"
    using play_too_few [of p options anim s] that assms(2) l e by simp
  ultimately show ?thesis
    using e by simp
qed

theorem reversed_range_is_excluded_witness:
  "framesOf reversedProps \<lparr>row = 0, startFrame = 4, endFrame = 0\<rparr> = []
   \<and> fst (interpolationRanges True reversedProps) ''back'' = None
   \<and> Warn (RequiresTwoFrames ''back'' 0) \<in> set (snd (interpolationRanges True reversedProps))
   \<and> play reversedProps
        \<lparr>type = ''back'', fps = None, loop = None, resetAfterFinish = None, onFinish = None\<rparr>
        initialSession
      = (initialSession, [Error (RequiresTwoFrames ''back'' 0)])"
proof -
  let ?anim = "\<lparr>row = 0, startFrame = 4, endFrame = 0\<rparr>"
  let ?o = "\<lparr>type = ''back'', fps = None, loop = None, resetAfterFinish = None, onFinish = None\<rparr>"
  have h1: "distinct (map fst (animations reversedProps))"
    by (simp add: reversedProps_def testProps_def)
  have h2: "map_of (animations reversedProps) ''back'' = Some ?anim"
    by (simp add: reversedProps_def testProps_def)
  have h3: "endFrame ?anim < startFrame ?anim"
    by simp
  from reversed_range_is_excluded [OF h1 h2 h3, of True ?o initialSession]
  show ?thesis
    by simp
qed

section \<open>The claims about playback\<close>

text \<open>
  C5. For every animation name whose frame list has fewer than two entries, no curve is
  registered under the name (the curve builder warns instead). For every name without a
  registered curve, unknown or with too few frames, \<open>play\<close> prints exactly one error and
  returns the session as it was: \<open>animationType\<close>, the progress and the advance in flight
  are unchanged.
\<close>

theorem invalid_animation_cannot_play:
  assumes "distinct (map fst (animations p))"
  shows "(map_of (animations p) name = Some anim \<and> length (framesOf p anim) < 2 \<longrightarrow>
            fst (interpolationRanges dev p) name = None
          \<and> Warn (RequiresTwoFrames name (length (framesOf p anim)))
               \<in> set (snd (interpolationRanges dev p)))
    \<and> (fst (interpolationRanges dev p) (type options) = None \<longrightarrow>
            fst (play p options s) = s
          \<and> (snd (play p options s) = [Error (TypeNotFound (type options))]
              \<or> (\<exists>n<2. snd (play p options s) = [Error (RequiresTwoFrames (type options) n)])))"
proof (intro conjI impI)
  assume h: "map_of (animations p) name = Some anim \<and> length (framesOf p anim) < 2"
  then show "fst (interpolationRanges dev p) name = None"
    using assms by (auto simp add: unregistered_iff)
  from h have mem: "(name, anim) \<in> set (animations p)"
    by (simp add: map_of_SomeD)
  from h have l: "length (framesOf p anim) < 2"
    by simp
  show "Warn (RequiresTwoFrames name (length (framesOf p anim)))
          \<in> set (snd (interpolationRanges dev p))"
    using fold_entry_console_warns [OF mem l, of dev Map.empty "[]"]
    by (simp add: interpolationRanges_def)
next
  assume u: "fst (interpolationRanges dev p) (type options) = None"
  then consider (unknown) "map_of (animations p) (type options) = None"
    | (few) anim where "map_of (animations p) (type options) = Some anim"
        "length (framesOf p anim) < 2"
    using assms by (auto simp add: unregistered_iff)
  then have "fst (play p options s) = s
      \<and> (snd (play p options s) = [Error (TypeNotFound (type options))]
          \<or> (\<exists>n<2. snd (play p options s) = [Error (RequiresTwoFrames (type options) n)]))"
  proof cases
    case unknown
    then show ?thesis
      by (simp add: play_unknown)
  next
    case few
    then show ?thesis
      by (simp add: play_too_few)
  qed
  then show "fst (play p options s) = s"
    and "snd (play p options s) = [Error (TypeNotFound (type options))]
          \<or> (\<exists>n<2. snd (play p options s) = [Error (RequiresTwoFrames (type options) n)])"
    by simp_all
qed

theorem invalid_animation_cannot_play_witness:
  "fst (interpolationRanges True singleProps) ''run'' = None
   \<and> Warn (RequiresTwoFrames ''run'' 1) \<in> set (snd (interpolationRanges True singleProps))
   \<and> fst (play singleProps runOptions midRun) = midRun
   \<and> (snd (play singleProps runOptions midRun) = [Error (TypeNotFound ''run'')]
       \<or> (\<exists>n<2. snd (play singleProps runOptions midRun) = [Error (RequiresTwoFrames ''run'' n)]))
   \<and> fst (interpolationRanges True testProps) ''walk'' = None
   \<and> fst (play testProps (runOptions\<lparr>type := ''walk''\<rparr>) midRun) = midRun"
proof -
  let ?anim = "\<lparr>row = 0, startFrame = 0, endFrame = 0\<rparr>"
  have d1: "distinct (map fst (animations singleProps))"
    by (simp add: singleProps_def testProps_def)
  have d2: "distinct (map fst (animations testProps))"
    by (simp add: testProps_def)
  have m: "map_of (animations singleProps) ''run'' = Some ?anim"
    by (simp add: singleProps_def testProps_def)
  have l: "length (framesOf singleProps ?anim) = 1"
    by (simp add: length_generateFrames)
  have w: "fst (interpolationRanges True testProps) ''walk'' = None"
    using d2 by (simp add: unregistered_iff testProps_def)
  from invalid_animation_cannot_play [OF d1, of "''run''" ?anim True runOptions midRun] m l
  have a: "fst (interpolationRanges True singleProps) ''run'' = None
   \<and> Warn (RequiresTwoFrames ''run'' 1) \<in> set (snd (interpolationRanges True singleProps))
   \<and> fst (play singleProps runOptions midRun) = midRun
   \<and> (snd (play singleProps runOptions midRun) = [Error (TypeNotFound ''run'')]
       \<or> (\<exists>n<2. snd (play singleProps runOptions midRun) = [Error (RequiresTwoFrames ''run'' n)]))"
    by (simp add: runOptions_def)
  from invalid_animation_cannot_play
    [OF d2, of "''walk''" ?anim True "runOptions\<lparr>type := ''walk''\<rparr>" midRun] w
  have b: "fst (play testProps (runOptions\<lparr>type := ''walk''\<rparr>) midRun) = midRun"
    by simp
  from a b w show ?thesis
    by blast
qed

text \<open>
  C3. For every name with a registered curve and every session state, \<open>play\<close> prints no
  error and leaves \<open>animationType\<close> at that name, the progress at 0 and a new advance in
  flight, whatever was in flight before: a linear timing animation towards \<open>frameCount\<close>,
  the length of the frame list (half the number of keyframes of the curve), of duration
  \<open>(frameCount / fps) * 1000\<close> milliseconds, \<open>fps\<close> being 24 when not given. (For
  \<open>fps = 0\<close> the quotient is not a finite number.)
\<close>

theorem play_starts_linear_advance:
  assumes "distinct (map fst (animations p))"
      and "fst (interpolationRanges dev p) (type options) = Some c"
      and "map_of (animations p) (type options) = Some anim"
  shows "(let n = length (framesOf p anim);
              fpsV = (case fps options of None \<Rightarrow> 24 | Some v \<Rightarrow> v);
              s1 = fst (play p options s)
          in 2 \<le> n
           \<and> length (inputs (translateX_range c)) = 2 * n
           \<and> animationType s1 = Some (type options)
           \<and> animatedValue s1 = 0
           \<and> (\<exists>a. running s1 = Some a
                 \<and> toValue (config a) = n
                 \<and> easing (config a) = Linear
                 \<and> looping a = (loop options = Some True)
                 \<and> (fpsV \<noteq> 0 \<longrightarrow> duration (config a) = Some ((real n / fpsV) * 1000)))
           \<and> filter isError (snd (play p options s)) = [])"
proof -
  from assms have n: "2 \<le> length (framesOf p anim)"
    and c: "c = curveOf dev p (framesOf p anim)"
    by (auto simp add: registered_iff)
  have l: "(case loop options of None \<Rightarrow> False | Some b \<Rightarrow> b) = (loop options = Some True)"
    by (simp split: option.split)
  have f: "(case fps options of None \<Rightarrow> DEFAULT_FPS | Some v \<Rightarrow> v)
      = (case fps options of None \<Rightarrow> 24 | Some v \<Rightarrow> v)"
    by (simp add: DEFAULT_FPS_def split: option.split)
  show ?thesis
    using n
    by (simp add: Let_def c curveOf_lengths play_success [OF assms(3) n] l f
        endAnimation_animationType endAnimation_no_errors durationOf_def)
qed

theorem play_starts_linear_advance_witness:
  "animationType (fst (play testProps runOptions midRun)) = Some ''run''
   \<and> animatedValue (fst (play testProps runOptions midRun)) = 0
   \<and> (\<exists>a. running (fst (play testProps runOptions midRun)) = Some a
         \<and> toValue (config a) = 5 \<and> easing (config a) = Linear \<and> \<not> looping a
         \<and> duration (config a) = Some (625 / 3))"
proof -
  let ?anim = "\<lparr>row = 0, startFrame = 0, endFrame = 4\<rparr>"
  let ?c = "curveOf True testProps (framesOf testProps ?anim)"
  have d: "distinct (map fst (animations testProps))"
    by (simp add: testProps_def)
  have m: "map_of (animations testProps) (type runOptions) = Some ?anim"
    by (simp add: testProps_def runOptions_def)
  have l: "length (framesOf testProps ?anim) = 5"
    by (simp add: length_generateFrames)
  have r: "fst (interpolationRanges True testProps) (type runOptions) = Some ?c"
    using d m l by (simp add: registered_iff)
  from play_starts_linear_advance [OF d r m, of midRun] l
  show ?thesis
    by (simp add: Let_def runOptions_def)
qed







end
